theory Spec2Isabelle
  imports Main "HOL-Library.Word"
begin

unbundle bit_operations_syntax

section \<open>DNS TSIG support (dns/tsig.py)\<close>

text \<open>
  A shallow embedding of \<^verbatim>\<open>dns/tsig.py\<close>. Python \<^verbatim>\<open>bytes\<close> are lists of 8-bit words,
  Python integers are \<open>int\<close>, \<^verbatim>\<open>None\<close> is \<open>None\<close>, and every \<^verbatim>\<open>raise\<close> is an
  \<open>Inl\<close> result. An engine object (\<^verbatim>\<open>HMACTSig\<close>, \<^verbatim>\<open>GSSTSig\<close>) is a value; a method
  that mutates it returns the new value.
\<close>

subsection \<open>Values from outside the module\<close>

type_synonym byte = "8 word"
type_synonym bytes = "byte list"

text \<open>
  Modelled from the spec: \<^verbatim>\<open>dns.name.Name\<close>, which is not part of this module. A name is
  the list of its labels, the empty root label last, in canonical (lower-case) form: DNS
  names compare and hash case-insensitively, so equality of the canonical forms is the
  \<^verbatim>\<open>==\<close> of the source. \<open>to_digestable\<close> is the canonical wire form: every label
  preceded by its length.
\<close>

datatype name = Name (labels: "string list")

definition to_digestable :: "name \<Rightarrow> bytes" where
  "to_digestable n = concat (map (\<lambda>l. word_of_nat (length l) # map of_char l) (labels n))"

text \<open>
  An exception object raised by code outside the module (the GSS-API context): either an
  instance of \<^verbatim>\<open>Exception\<close>, which \<^verbatim>\<open>except Exception\<close> catches, or of
  \<^verbatim>\<open>BaseException\<close> only (\<^verbatim>\<open>KeyboardInterrupt\<close>, \<^verbatim>\<open>SystemExit\<close>), which it does not.
\<close>

datatype raised = Exception string | BaseException string

text \<open>
  The exceptions of the module (lines 30-72) and the built-in ones its code can raise.
  \<open>PeerError\<close> carries the error code that the source formats into its message,
  \<open>NotImplementedError\<close> the algorithm; \<open>StructError\<close> is \<^verbatim>\<open>struct.error\<close>.
\<close>

datatype error =
    BadTime
  | BadSignature
  | BadKey
  | BadAlgorithm
  | PeerError int
  | PeerBadKey
  | PeerBadSignature
  | PeerBadTime
  | PeerBadTruncation
  | FormError
  | NotImplementedError name
  | ValueError
  | StructError
  | TypeError
  | AttributeError
  | Raised raised

definition andthen :: "error + 'a \<Rightarrow> ('a \<Rightarrow> error + 'b) \<Rightarrow> error + 'b" where
  "andthen m f = (case m of Inl e \<Rightarrow> Inl e | Inr x \<Rightarrow> f x)"

text \<open>
  \<^verbatim>\<open>struct.pack\<close> and \<^verbatim>\<open>struct.unpack\<close> in network byte order: \<^verbatim>\<open>!H\<close> is an unsigned
  16-bit value, \<^verbatim>\<open>!I\<close> an unsigned 32-bit one, most significant byte first (\<open>be16\<close>,
  \<open>be32\<close>); a value out of range, or a buffer of the wrong length, raises
  \<^verbatim>\<open>struct.error\<close>.
\<close>

definition be16 :: "int \<Rightarrow> bytes" where
  "be16 n = [word_of_int (n div 256), word_of_int n]"

definition be32 :: "int \<Rightarrow> bytes" where
  "be32 n = [word_of_int (n div 16777216), word_of_int (n div 65536),
             word_of_int (n div 256), word_of_int n]"

definition pack_H :: "int \<Rightarrow> error + bytes" where
  "pack_H n = (if 0 \<le> n \<and> n \<le> 65535 then Inr (be16 n) else Inl StructError)"

definition pack_I :: "int \<Rightarrow> error + bytes" where
  "pack_I n = (if 0 \<le> n \<and> n \<le> 4294967295 then Inr (be32 n) else Inl StructError)"

definition pack_HH :: "int \<Rightarrow> int \<Rightarrow> error + bytes" where
  "pack_HH a b = andthen (pack_H a) (\<lambda>x. andthen (pack_H b) (\<lambda>y. Inr (x @ y)))"

definition pack_HIH :: "int \<Rightarrow> int \<Rightarrow> int \<Rightarrow> error + bytes" where
  "pack_HIH a b c =
     andthen (pack_H a) (\<lambda>x. andthen (pack_I b) (\<lambda>y. andthen (pack_H c) (\<lambda>z. Inr (x @ y @ z))))"

definition unpack_H :: "bytes \<Rightarrow> error + int" where
  "unpack_H b = (case b of [hi, lo] \<Rightarrow> Inr (uint hi * 256 + uint lo) | _ \<Rightarrow> Inl StructError)"

text \<open>
  Modelled from the spec: the constants of \<^verbatim>\<open>dns.rcode\<close>, \<^verbatim>\<open>dns.rdataclass\<close> and
  \<^verbatim>\<open>dns.rdatatype\<close> that the module reads, with their values from the DNS registries.
\<close>

definition BADSIG :: int where "BADSIG = 16"
definition BADKEY :: int where "BADKEY = 17"
definition BADTIME :: int where "BADTIME = 18"
definition BADTRUNC :: int where "BADTRUNC = 22"
definition ANY :: int where "ANY = 255"
definition TSIG_rdatatype :: int where "TSIG_rdatatype = 250"

text \<open>
  Modelled from the spec: the TSIG rdata object (\<^verbatim>\<open>dns.rdtypes.ANY.TSIG.TSIG\<close>), a plain
  holder of the fields its constructor is given. \<open>time_signed\<close> is \<open>None\<close> when the
  constructor was given \<^verbatim>\<open>None\<close>.
\<close>

record TSIG =
  rdclass :: int
  rdtype :: int
  algorithm :: name
  time_signed :: "int option"
  fudge :: int
  mac :: bytes
  original_id :: int
  error :: int
  other :: bytes

text \<open>
  The \<^verbatim>\<open>hashlib\<close> constructors the module names, with their digest sizes in bytes, and
  the \<^verbatim>\<open>hmac\<close> object: its digest is a function of the key, the hash and all the bytes fed
  so far. That function is a parameter \<open>H\<close> of everything that computes a MAC.
\<close>

datatype hashfn = md5 | sha1 | sha224 | sha256 | sha384 | sha512

type_synonym hmac_fun = "hashfn \<Rightarrow> bytes \<Rightarrow> bytes \<Rightarrow> bytes"

definition digest_size :: "hashfn \<Rightarrow> nat" where
  "digest_size h =
     (case h of md5 \<Rightarrow> 16 | sha1 \<Rightarrow> 20 | sha224 \<Rightarrow> 28 | sha256 \<Rightarrow> 32 | sha384 \<Rightarrow> 48 | sha512 \<Rightarrow> 64)"

definition hash_name :: "hashfn \<Rightarrow> string" where
  "hash_name h =
     (case h of md5 \<Rightarrow> ''md5'' | sha1 \<Rightarrow> ''sha1'' | sha224 \<Rightarrow> ''sha224''
      | sha256 \<Rightarrow> ''sha256'' | sha384 \<Rightarrow> ''sha384'' | sha512 \<Rightarrow> ''sha512'')"

record hmac =
  hmac_key :: bytes
  hmac_digestmod :: hashfn
  hmac_msg :: bytes

text \<open>
  The GSS-API security context the caller injects: two methods, each of which returns or
  raises. The value \<^verbatim>\<open>verify_signature\<close> returns is not used by the module.
\<close>

record gssapi =
  get_signature :: "bytes \<Rightarrow> raised + bytes"
  verify_signature :: "bytes \<Rightarrow> bytes \<Rightarrow> raised + unit"

text \<open>A key's secret: raw bytes for HMAC, the security context for GSS-TSIG.\<close>

datatype secret = Bytes bytes | Context gssapi

definition hmac_new :: "secret \<Rightarrow> hashfn \<Rightarrow> error + hmac" where
  "hmac_new key h =
     (case key of
        Bytes k \<Rightarrow> Inr \<lparr>hmac_key = k, hmac_digestmod = h, hmac_msg = []\<rparr>
      | Context _ \<Rightarrow> Inl TypeError)"

definition hmac_update :: "hmac \<Rightarrow> bytes \<Rightarrow> hmac" where
  "hmac_update c d = c\<lparr>hmac_msg := hmac_msg c @ d\<rparr>"

definition hmac_digest :: "hmac_fun \<Rightarrow> hmac \<Rightarrow> bytes" where
  "hmac_digest H c = H (hmac_digestmod c) (hmac_key c) (hmac_msg c)"

fun decimal :: "nat \<Rightarrow> string" where
  "decimal n = (if n < 10 then [char_of (48 + n)] else decimal (n div 10) @ [char_of (48 + n mod 10)])"

subsection \<open>TSIG algorithms (lines 75-88)\<close>

definition HMAC_MD5 :: name where "HMAC_MD5 = Name [''hmac-md5'', ''sig-alg'', ''reg'', ''int'', '''']"
definition HMAC_SHA1 :: name where "HMAC_SHA1 = Name [''hmac-sha1'', '''']"
definition HMAC_SHA224 :: name where "HMAC_SHA224 = Name [''hmac-sha224'', '''']"
definition HMAC_SHA256 :: name where "HMAC_SHA256 = Name [''hmac-sha256'', '''']"
definition HMAC_SHA256_128 :: name where "HMAC_SHA256_128 = Name [''hmac-sha256-128'', '''']"
definition HMAC_SHA384 :: name where "HMAC_SHA384 = Name [''hmac-sha384'', '''']"
definition HMAC_SHA384_192 :: name where "HMAC_SHA384_192 = Name [''hmac-sha384-192'', '''']"
definition HMAC_SHA512 :: name where "HMAC_SHA512 = Name [''hmac-sha512'', '''']"
definition HMAC_SHA512_256 :: name where "HMAC_SHA512_256 = Name [''hmac-sha512-256'', '''']"
definition GSS_TSIG :: name where "GSS_TSIG = Name [''gss-tsig'', '''']"

definition default_algorithm :: name where "default_algorithm = HMAC_SHA256"

subsection \<open>Key (lines 325-341)\<close>

record Key =
  name :: name
  secret :: secret
  algorithm :: name

text \<open>
  An argument that the constructor accepts either as text or as the object itself. The
  two conversions of text, \<^verbatim>\<open>dns.name.from_text\<close> and \<^verbatim>\<open>base64.decodebytes\<close>, are outside
  the module and are parameters.
\<close>

datatype 'a or_str = Str string | Obj 'a

definition Key_init ::
  "(string \<Rightarrow> error + name) \<Rightarrow> (string \<Rightarrow> error + bytes) \<Rightarrow>
   name or_str \<Rightarrow> secret or_str \<Rightarrow> name or_str \<Rightarrow> error + Key" where
  "Key_init from_text decodebytes name_arg secret_arg algorithm_arg =
     andthen (case name_arg of Str s \<Rightarrow> from_text s | Obj n \<Rightarrow> Inr n) (\<lambda>n.
     andthen (case secret_arg of Str s \<Rightarrow> andthen (decodebytes s) (\<lambda>b. Inr (Bytes b))
                               | Obj x \<Rightarrow> Inr x) (\<lambda>s.
     andthen (case algorithm_arg of Str s \<Rightarrow> from_text s | Obj a \<Rightarrow> Inr a) (\<lambda>a.
     Inr \<lparr>name = n, secret = s, algorithm = a\<rparr>)))"

subsection \<open>GSSTSig (lines 91-118)\<close>

record GSSTSig =
  gssapi_context :: secret
  gss_data :: bytes
  gss_name :: string

definition GSSTSig_init :: "secret \<Rightarrow> GSSTSig" where
  "GSSTSig_init ctx = \<lparr>gssapi_context = ctx, gss_data = [], gss_name = ''gss-tsig''\<rparr>"

definition GSSTSig_update :: "GSSTSig \<Rightarrow> bytes \<Rightarrow> GSSTSig" where
  "GSSTSig_update self d = self\<lparr>gss_data := gss_data self @ d\<rparr>"

text \<open>A secret that is not a context object has no such method: \<^verbatim>\<open>AttributeError\<close>.\<close>

definition GSSTSig_sign :: "GSSTSig \<Rightarrow> error + bytes" where
  "GSSTSig_sign self =
     (case gssapi_context self of
        Context c \<Rightarrow> (case get_signature c (gss_data self) of
                        Inl x \<Rightarrow> Inl (Raised x) | Inr s \<Rightarrow> Inr s)
      | Bytes _ \<Rightarrow> Inl AttributeError)"

definition is_Exception :: "error \<Rightarrow> bool" where
  "is_Exception e = (case e of Raised (BaseException _) \<Rightarrow> False | _ \<Rightarrow> True)"

definition GSSTSig_verify :: "GSSTSig \<Rightarrow> bytes \<Rightarrow> error + unit" where
  "GSSTSig_verify self expected =
     (case (case gssapi_context self of
              Context c \<Rightarrow> (case verify_signature c (gss_data self) expected of
                              Inl x \<Rightarrow> Inl (Raised x) | Inr u \<Rightarrow> Inr u)
            | Bytes _ \<Rightarrow> Inl AttributeError) of
        Inl e \<Rightarrow> if is_Exception e then Inl BadSignature else Inl e
      | Inr u \<Rightarrow> Inr u)"

subsection \<open>HMACTSig (lines 153-203)\<close>

datatype hashinfo = Plain hashfn | Truncated hashfn nat

definition hashes :: "name \<Rightarrow> hashinfo option" where
  "hashes = map_of
     [(HMAC_SHA1, Plain sha1),
      (HMAC_SHA224, Plain sha224),
      (HMAC_SHA256, Plain sha256),
      (HMAC_SHA256_128, Truncated sha256 128),
      (HMAC_SHA384, Plain sha384),
      (HMAC_SHA384_192, Truncated sha384 192),
      (HMAC_SHA512, Plain sha512),
      (HMAC_SHA512_256, Truncated sha512 256),
      (HMAC_MD5, Plain md5)]"

record HMACTSig =
  hmac_context :: hmac
  hmac_size :: "nat option"
  hmac_name :: string

definition HMACTSig_init :: "secret \<Rightarrow> name \<Rightarrow> error + HMACTSig" where
  "HMACTSig_init key alg =
     (case hashes alg of
        None \<Rightarrow> Inl (NotImplementedError alg)
      | Some (Truncated h n) \<Rightarrow>
          andthen (hmac_new key h) (\<lambda>c.
            Inr \<lparr>hmac_context = c, hmac_size = Some n,
                 hmac_name = (if n \<noteq> 0 then ''hmac-'' @ hash_name h @ ''-'' @ decimal n
                              else ''hmac-'' @ hash_name h)\<rparr>)
      | Some (Plain h) \<Rightarrow>
          andthen (hmac_new key h) (\<lambda>c.
            Inr \<lparr>hmac_context = c, hmac_size = None, hmac_name = ''hmac-'' @ hash_name h\<rparr>))"

definition HMACTSig_update :: "HMACTSig \<Rightarrow> bytes \<Rightarrow> HMACTSig" where
  "HMACTSig_update self d = self\<lparr>hmac_context := hmac_update (hmac_context self) d\<rparr>"

definition HMACTSig_sign :: "hmac_fun \<Rightarrow> HMACTSig \<Rightarrow> bytes" where
  "HMACTSig_sign H self =
     (let digest = hmac_digest H (hmac_context self) in
      case hmac_size self of
        None \<Rightarrow> digest
      | Some n \<Rightarrow> if n \<noteq> 0 then take (n div 8) digest else digest)"

definition HMACTSig_verify :: "hmac_fun \<Rightarrow> HMACTSig \<Rightarrow> bytes \<Rightarrow> error + unit" where
  "HMACTSig_verify H self expected =
     (let mac = HMACTSig_sign H self in
      if \<not> (mac = expected) then Inl BadSignature else Inr ())"

subsection \<open>The engine of a key (lines 312-322)\<close>

datatype ctx = HMAC HMACTSig | GSS GSSTSig

definition ctx_update :: "ctx \<Rightarrow> bytes \<Rightarrow> ctx" where
  "ctx_update c d = (case c of HMAC h \<Rightarrow> HMAC (HMACTSig_update h d) | GSS g \<Rightarrow> GSS (GSSTSig_update g d))"

definition ctx_sign :: "hmac_fun \<Rightarrow> ctx \<Rightarrow> error + bytes" where
  "ctx_sign H c = (case c of HMAC h \<Rightarrow> Inr (HMACTSig_sign H h) | GSS g \<Rightarrow> GSSTSig_sign g)"

definition ctx_verify :: "hmac_fun \<Rightarrow> ctx \<Rightarrow> bytes \<Rightarrow> error + unit" where
  "ctx_verify H c expected =
     (case c of HMAC h \<Rightarrow> HMACTSig_verify H h expected | GSS g \<Rightarrow> GSSTSig_verify g expected)"

text \<open>The bytes an engine has been fed since it was created.\<close>

definition fed :: "ctx \<Rightarrow> bytes" where
  "fed c = (case c of HMAC h \<Rightarrow> hmac_msg (hmac_context h) | GSS g \<Rightarrow> gss_data g)"

definition get_context :: "Key \<Rightarrow> error + ctx" where
  "get_context key =
     (if Key.algorithm key = GSS_TSIG then Inr (GSS (GSSTSig_init (secret key)))
      else andthen (HMACTSig_init (secret key) (Key.algorithm key)) (\<lambda>h. Inr (HMAC h)))"

subsection \<open>The digest (lines 206-253)\<close>

text \<open>
  \<^verbatim>\<open>_digest\<close>. An engine object is always true, so \<^verbatim>\<open>ctx and multi\<close> holds when a
  context is given and \<open>multi\<close> is set; \<^verbatim>\<open>if request_mac\<close> holds for a MAC that is
  neither \<^verbatim>\<open>None\<close> nor empty.
\<close>

definition digest ::
  "bytes \<Rightarrow> Key \<Rightarrow> TSIG \<Rightarrow> int option \<Rightarrow> bytes option \<Rightarrow> ctx option \<Rightarrow> bool \<Rightarrow> error + ctx" where
  "digest wire key rdata time request_mac ctx multi =
     (let first = \<not> ((case ctx of None \<Rightarrow> False | Some _ \<Rightarrow> True) \<and> multi) in
      andthen
        (case (if first then None else ctx) of
           None \<Rightarrow>
             andthen (get_context key) (\<lambda>c.
               case request_mac of
                 None \<Rightarrow> Inr c
               | Some m \<Rightarrow>
                   if m = [] then Inr c
                   else andthen (pack_H (int (length m))) (\<lambda>l.
                          Inr (ctx_update (ctx_update c l) m)))
         | Some c \<Rightarrow> Inr c) (\<lambda>c1.
      andthen (pack_H (original_id rdata)) (\<lambda>oid.
      let c2 = ctx_update (ctx_update c1 oid) (drop 2 wire) in
      andthen
        (if first then
           andthen (pack_H ANY) (\<lambda>cls.
           andthen (pack_I 0) (\<lambda>ttl.
             Inr (ctx_update (ctx_update (ctx_update c2 (to_digestable (name key))) cls) ttl)))
         else Inr c2) (\<lambda>c3.
      andthen
        (case (case time of None \<Rightarrow> time_signed rdata | Some t \<Rightarrow> Some t) of
           None \<Rightarrow> Inl TypeError
         | Some t \<Rightarrow> Inr t) (\<lambda>t.
      let upper_time = drop_bit 32 t AND 0xffff;
          lower_time = t AND 0xffffffff in
      andthen (pack_HIH upper_time lower_time (fudge rdata)) (\<lambda>time_encoded.
      let other_len = int (length (other rdata)) in
      if other_len > 65535 then Inl ValueError
      else if first then
        (let c4 = ctx_update c3 (to_digestable (Key.algorithm key) @ time_encoded) in
         andthen (pack_HH (error rdata) other_len) (\<lambda>eo.
           Inr (ctx_update c4 (eo @ other rdata))))
      else Inr (ctx_update c3 time_encoded)))))))"

definition maybe_start_digest :: "Key \<Rightarrow> bytes \<Rightarrow> bool \<Rightarrow> error + ctx option" where
  "maybe_start_digest key m multi =
     (if multi then
        andthen (get_context key) (\<lambda>c.
        andthen (pack_H (int (length m))) (\<lambda>l.
          Inr (Some (ctx_update (ctx_update c l) m))))
      else Inr None)"

subsection \<open>sign and validate (lines 256-309)\<close>

text \<open>
  \<^verbatim>\<open>sign\<close>. The record is built from the arguments of \<open>sign\<close> itself: its signing time
  is the \<open>time\<close> argument as it was passed.
\<close>

definition sign ::
  "hmac_fun \<Rightarrow> bytes \<Rightarrow> Key \<Rightarrow> TSIG \<Rightarrow> int option \<Rightarrow> bytes option \<Rightarrow> ctx option \<Rightarrow> bool \<Rightarrow>
   error + (TSIG \<times> ctx option)" where
  "sign H wire key rdata time request_mac ctx multi =
     andthen (digest wire key rdata time request_mac ctx multi) (\<lambda>c.
     andthen (ctx_sign H c) (\<lambda>m.
     let tsig = \<lparr>rdclass = ANY, rdtype = TSIG_rdatatype, TSIG.algorithm = Key.algorithm key,
                 time_signed = time, fudge = fudge rdata, mac = m,
                 original_id = original_id rdata, error = error rdata, other = other rdata\<rparr> in
     andthen (maybe_start_digest key m multi) (\<lambda>c'. Inr (tsig, c'))))"

text \<open>
  \<^verbatim>\<open>validate\<close>. The chain of comparisons of the error code with the constants of
  \<^verbatim>\<open>dns.rcode\<close> is \<open>peer_error\<close>; \<open>tsig_start\<close>, an offset into the wire, is a natural
  number, and \<open>now\<close> an integer number of seconds. The rdata of a record that was built
  without a signing time has none to subtract from: \<^verbatim>\<open>TypeError\<close>.
\<close>

definition peer_error :: "int \<Rightarrow> error" where
  "peer_error e =
     (if e = BADSIG then PeerBadSignature
      else if e = BADKEY then PeerBadKey
      else if e = BADTIME then PeerBadTime
      else if e = BADTRUNC then PeerBadTruncation
      else PeerError e)"

definition validate ::
  "hmac_fun \<Rightarrow> bytes \<Rightarrow> Key \<Rightarrow> name \<Rightarrow> TSIG \<Rightarrow> int \<Rightarrow> bytes option \<Rightarrow> nat \<Rightarrow> ctx option \<Rightarrow> bool \<Rightarrow>
   error + ctx option" where
  "validate H wire key owner rdata now request_mac tsig_start ctx multi =
     andthen (unpack_H (take 2 (drop 10 wire))) (\<lambda>adcount.
     if adcount = 0 then Inl FormError
     else
       andthen (pack_H (adcount - 1)) (\<lambda>cnt.
       let new_wire = take 10 wire @ cnt @ drop 12 (take tsig_start wire) in
       if error rdata \<noteq> 0 then Inl (peer_error (error rdata))
       else
         andthen (case time_signed rdata of None \<Rightarrow> Inl TypeError | Some t \<Rightarrow> Inr t) (\<lambda>t.
         if \<bar>t - now\<bar> > fudge rdata then Inl BadTime
         else if name key \<noteq> owner then Inl BadKey
         else if Key.algorithm key \<noteq> TSIG.algorithm rdata then Inl BadAlgorithm
         else
           andthen (digest new_wire key rdata None request_mac ctx multi) (\<lambda>c.
           andthen (ctx_verify H c (mac rdata)) (\<lambda>u.
           maybe_start_digest key (mac rdata) multi)))))"

subsection \<open>The message layer\<close>

text \<open>
  Modelled from the spec: the message layer, which is not part of this module. It renders
  the TSIG record that \<open>sign\<close> returns, appends it to the signed message and counts it in
  the additional-record count (bytes 10 and 11 of the header); \<open>validate\<close> is then given
  the offset at which the record starts, the length of the signed message.
\<close>

definition append_tsig :: "bytes \<Rightarrow> bytes \<Rightarrow> error + bytes" where
  "append_tsig wire rr =
     andthen (unpack_H (take 2 (drop 10 wire))) (\<lambda>adcount.
     andthen (pack_H (adcount + 1)) (\<lambda>cnt.
       Inr (take 10 wire @ cnt @ drop 12 wire @ rr)))"

subsection \<open>Stand-ins for running the model\<close>

text \<open>
  A stand-in for the \<^verbatim>\<open>hmac\<close> module on which the model can be run: a digest of the
  native length that depends on the key and on every byte fed, with none of the
  cryptographic properties.
\<close>

definition fake_hmac :: hmac_fun where
  "fake_hmac h k m = map (\<lambda>i. fold (XOR) (k @ m) (word_of_nat i)) [0..<digest_size h]"

text \<open>
  A security context whose methods fail: \<^verbatim>\<open>get_signature\<close> raises an exception of class
  \<^verbatim>\<open>Exception\<close>; \<^verbatim>\<open>verify_signature\<close> raises one too, except on the token
  \<open>[1]\<close>, which it accepts.
\<close>

definition failing_gssapi :: gssapi where
  "failing_gssapi =
     \<lparr>get_signature = (\<lambda>d. Inl (Exception ''expired'')),
      verify_signature = (\<lambda>d t. if t = [1] then Inr () else Inl (Exception ''bad token''))\<rparr>"

text \<open>
  A message of twelve bytes (a header with message id 7 and no records), a key, and the
  TSIG fields to sign it with.
\<close>

definition test_wire :: bytes where
  "test_wire = [0, 7, 1, 0, 0, 0, 0, 0, 0, 0, 0, 0]"

definition test_key :: Key where
  "test_key = \<lparr>name = Name [''k'', ''''], secret = Bytes [1, 2, 3], algorithm = HMAC_SHA256_128\<rparr>"

definition test_rdata :: TSIG where
  "test_rdata =
     \<lparr>rdclass = ANY, rdtype = TSIG_rdatatype, TSIG.algorithm = HMAC_SHA256_128,
      time_signed = Some 1000, fudge = 300, mac = [], original_id = 7, error = 0, other = []\<rparr>"

section \<open>Properties\<close>

subsection \<open>The HMAC engine\<close>

lemma fake_hmac_length: "length (fake_hmac h k m) = digest_size h"
  by (simp add: fake_hmac_def)

lemma hashes_simps:
  "hashes HMAC_SHA1 = Some (Plain sha1)"
  "hashes HMAC_SHA224 = Some (Plain sha224)"
  "hashes HMAC_SHA256 = Some (Plain sha256)"
  "hashes HMAC_SHA256_128 = Some (Truncated sha256 128)"
  "hashes HMAC_SHA384 = Some (Plain sha384)"
  "hashes HMAC_SHA384_192 = Some (Truncated sha384 192)"
  "hashes HMAC_SHA512 = Some (Plain sha512)"
  "hashes HMAC_SHA512_256 = Some (Truncated sha512 256)"
  "hashes HMAC_MD5 = Some (Plain md5)"
  by (simp_all add: hashes_def HMAC_MD5_def HMAC_SHA1_def HMAC_SHA224_def HMAC_SHA256_def
      HMAC_SHA256_128_def HMAC_SHA384_def HMAC_SHA384_192_def HMAC_SHA512_def HMAC_SHA512_256_def)

lemma hashes_cases:
  "hashes alg = Some i \<Longrightarrow>
     i = Plain sha1 \<or> i = Plain sha224 \<or> i = Plain sha256 \<or> i = Truncated sha256 128 \<or>
     i = Plain sha384 \<or> i = Truncated sha384 192 \<or> i = Plain sha512 \<or>
     i = Truncated sha512 256 \<or> i = Plain md5"
  by (auto simp: hashes_def split: if_splits)

lemma fed_msg: "hmac_msg (hmac_context (foldl HMACTSig_update e ds)) = hmac_msg (hmac_context e) @ concat ds"
  by (induction ds arbitrary: e) (simp_all add: HMACTSig_update_def hmac_update_def)

lemma fed_key: "hmac_key (hmac_context (foldl HMACTSig_update e ds)) = hmac_key (hmac_context e)"
  by (induction ds arbitrary: e) (simp_all add: HMACTSig_update_def hmac_update_def)

lemma fed_digestmod: "hmac_digestmod (hmac_context (foldl HMACTSig_update e ds)) = hmac_digestmod (hmac_context e)"
  by (induction ds arbitrary: e) (simp_all add: HMACTSig_update_def hmac_update_def)

lemma fed_size: "hmac_size (foldl HMACTSig_update e ds) = hmac_size e"
  by (induction ds arbitrary: e) (simp_all add: HMACTSig_update_def hmac_update_def)

lemma sign_fed:
  "HMACTSig_sign H (foldl HMACTSig_update e ds) =
     (let d = H (hmac_digestmod (hmac_context e)) (hmac_key (hmac_context e))
                (hmac_msg (hmac_context e) @ concat ds)
      in case hmac_size e of None \<Rightarrow> d | Some n \<Rightarrow> if n \<noteq> 0 then take (n div 8) d else d)"
  by (simp add: HMACTSig_sign_def hmac_digest_def fed_msg fed_key fed_digestmod fed_size)

lemma init_plain:
  "hashes alg = Some (Plain h) \<Longrightarrow>
   HMACTSig_init (Bytes k) alg =
     Inr \<lparr>hmac_context = \<lparr>hmac_key = k, hmac_digestmod = h, hmac_msg = []\<rparr>,
          hmac_size = None, hmac_name = ''hmac-'' @ hash_name h\<rparr>"
  by (simp add: HMACTSig_init_def hmac_new_def andthen_def)

lemma init_truncated:
  "hashes alg = Some (Truncated h n) \<Longrightarrow>
   HMACTSig_init (Bytes k) alg =
     Inr \<lparr>hmac_context = \<lparr>hmac_key = k, hmac_digestmod = h, hmac_msg = []\<rparr>,
          hmac_size = Some n,
          hmac_name = (if n \<noteq> 0 then ''hmac-'' @ hash_name h @ ''-'' @ decimal n
                       else ''hmac-'' @ hash_name h)\<rparr>"
  by (simp add: HMACTSig_init_def hmac_new_def andthen_def)

text \<open>
  Claim C6. Whatever chunks are fed to an HMAC engine, \<open>sign\<close> returns the first 16
  bytes of the SHA-256 digest for hmac-sha256-128, the first 24 bytes of the SHA-384 digest
  for hmac-sha384-192 and the first 32 bytes of the SHA-512 digest for hmac-sha512-256, a
  MAC of exactly that length; for an algorithm of the table without a truncation, it
  returns the digest itself, of the native length of the hash. The \<^verbatim>\<open>hmac\<close> module is
  assumed to return digests of the native length.
\<close>

theorem HMACTSig_sign_lengths:
  assumes native: "\<And>h k m. length (H h k m) = digest_size h"
  shows "(\<exists>e. HMACTSig_init (Bytes k) HMAC_SHA256_128 = Inr e \<and>
            HMACTSig_sign H (foldl HMACTSig_update e ds) = take 16 (H sha256 k (concat ds)) \<and>
            length (HMACTSig_sign H (foldl HMACTSig_update e ds)) = 16) \<and>
         (\<exists>e. HMACTSig_init (Bytes k) HMAC_SHA384_192 = Inr e \<and>
            HMACTSig_sign H (foldl HMACTSig_update e ds) = take 24 (H sha384 k (concat ds)) \<and>
            length (HMACTSig_sign H (foldl HMACTSig_update e ds)) = 24) \<and>
         (\<exists>e. HMACTSig_init (Bytes k) HMAC_SHA512_256 = Inr e \<and>
            HMACTSig_sign H (foldl HMACTSig_update e ds) = take 32 (H sha512 k (concat ds)) \<and>
            length (HMACTSig_sign H (foldl HMACTSig_update e ds)) = 32) \<and>
         (\<forall>alg h. hashes alg = Some (Plain h) \<longrightarrow>
            (\<exists>e. HMACTSig_init (Bytes k) alg = Inr e \<and>
               HMACTSig_sign H (foldl HMACTSig_update e ds) = H h k (concat ds) \<and>
               length (HMACTSig_sign H (foldl HMACTSig_update e ds)) = digest_size h))"
proof -
  have t: "\<exists>e. HMACTSig_init (Bytes k) alg = Inr e \<and>
            HMACTSig_sign H (foldl HMACTSig_update e ds) = take (n div 8) (H h k (concat ds)) \<and>
            length (HMACTSig_sign H (foldl HMACTSig_update e ds)) = n div 8"
    if "hashes alg = Some (Truncated h n)" and "n \<noteq> 0" and "n div 8 \<le> digest_size h" for alg h n
    using that by (simp add: init_truncated sign_fed native)
  have p: "\<exists>e. HMACTSig_init (Bytes k) alg = Inr e \<and>
               HMACTSig_sign H (foldl HMACTSig_update e ds) = H h k (concat ds) \<and>
               length (HMACTSig_sign H (foldl HMACTSig_update e ds)) = digest_size h"
    if "hashes alg = Some (Plain h)" for alg h
    using that by (simp add: init_plain sign_fed native)
  show ?thesis
    using t [OF hashes_simps(4)] t [OF hashes_simps(6)] t [OF hashes_simps(8)] p
    by (simp add: digest_size_def)
qed

theorem HMACTSig_sign_lengths_witness:
  "(\<exists>e. HMACTSig_init (Bytes [1, 2, 3]) HMAC_SHA256_128 = Inr e \<and>
      length (HMACTSig_sign fake_hmac (foldl HMACTSig_update e [[7], [8, 9]])) = 16) \<and>
   (\<exists>e. HMACTSig_init (Bytes [1, 2, 3]) HMAC_SHA1 = Inr e \<and>
      length (HMACTSig_sign fake_hmac (foldl HMACTSig_update e [[7], [8, 9]])) = 20)"
proof -
  note th = HMACTSig_sign_lengths [of fake_hmac "[1, 2, 3]" "[[7], [8, 9]]", OF fake_hmac_length]
  from th have a: "\<exists>e. HMACTSig_init (Bytes [1, 2, 3]) HMAC_SHA256_128 = Inr e \<and>
      length (HMACTSig_sign fake_hmac (foldl HMACTSig_update e [[7], [8, 9]])) = 16"
    by blast
  from th hashes_simps(1) have b: "\<exists>e. HMACTSig_init (Bytes [1, 2, 3]) HMAC_SHA1 = Inr e \<and>
      length (HMACTSig_sign fake_hmac (foldl HMACTSig_update e [[7], [8, 9]])) = digest_size sha1"
    by blast
  have "digest_size sha1 = 20" by (simp add: digest_size_def)
  with a b show ?thesis by simp
qed

lemma xor_bit_neq: "b < 8 \<Longrightarrow> (x :: byte) XOR push_bit b 1 \<noteq> x"
proof
  assume b: "b < 8" and e: "x XOR push_bit b 1 = x"
  from e have "bit (x XOR push_bit b 1) b = bit x b" by simp
  with b show False by (simp add: bit_simps)
qed

text \<open>
  Claim C8. Whatever has been fed to an HMAC engine, \<open>verify\<close> raises
  \<open>BadSignature\<close> exactly when the expected MAC differs from the recomputed (possibly
  truncated) one in its length or in some byte, and returns normally exactly when the two
  are equal; so the MAC that \<open>sign\<close> produces, with any one bit of any one byte
  flipped, is rejected with \<open>BadSignature\<close>.
\<close>

theorem HMACTSig_verify_iff:
  "(HMACTSig_verify H e expected = Inl BadSignature) =
     (length expected \<noteq> length (HMACTSig_sign H e) \<or>
      (\<exists>i < length expected. expected ! i \<noteq> HMACTSig_sign H e ! i)) \<and>
   (HMACTSig_verify H e expected = Inr ()) = (expected = HMACTSig_sign H e) \<and>
   (i < length (HMACTSig_sign H e) \<and> b < 8 \<longrightarrow>
      HMACTSig_verify H e ((HMACTSig_sign H e)[i := HMACTSig_sign H e ! i XOR push_bit b 1])
        = Inl BadSignature)"
proof -
  have v: "HMACTSig_verify H e x = (if x = HMACTSig_sign H e then Inr () else Inl BadSignature)" for x
    by (auto simp: HMACTSig_verify_def Let_def)
  have flip: "m[i := m ! i XOR push_bit b 1] \<noteq> m" if "i < length m" "b < 8" for m :: bytes
  proof
    assume "m[i := m ! i XOR push_bit b 1] = m"
    then have "m[i := m ! i XOR push_bit b 1] ! i = m ! i" by simp
    with that xor_bit_neq [of b "m ! i"] show False by simp
  qed
  have neq: "(expected \<noteq> HMACTSig_sign H e) =
     (length expected \<noteq> length (HMACTSig_sign H e) \<or>
      (\<exists>i < length expected. expected ! i \<noteq> HMACTSig_sign H e ! i))"
    by (auto simp: list_eq_iff_nth_eq)
  show ?thesis
    using flip [of "HMACTSig_sign H e"] neq by (simp add: v)
qed

theorem HMACTSig_verify_iff_witness:
  "HMACTSig_verify fake_hmac
     \<lparr>hmac_context = \<lparr>hmac_key = [1], hmac_digestmod = md5, hmac_msg = [2]\<rparr>,
      hmac_size = Some 16, hmac_name = ''hmac-md5''\<rparr> [3, 6] = Inl BadSignature"
  using HMACTSig_verify_iff [of fake_hmac
     "\<lparr>hmac_context = \<lparr>hmac_key = [1], hmac_digestmod = md5, hmac_msg = [2]\<rparr>,
      hmac_size = Some 16, hmac_name = ''hmac-md5''\<rparr>" "[]" 1 2]
  by (simp add: HMACTSig_sign_def hmac_digest_def fake_hmac_def digest_size_def upt_rec)

subsection \<open>The GSS engine\<close>

text \<open>
  Claim C9 as stated fails for signing: \<open>GSSTSig.sign\<close> has no handler, so an exception
  that \<^verbatim>\<open>get_signature\<close> raises leaves the engine as it is, not as \<open>BadSignature\<close>.
\<close>

theorem GSSTSig_sign_counterexample:
  "GSSTSig_sign (GSSTSig_update (GSSTSig_init (Context failing_gssapi)) [5]) =
     Inl (Raised (Exception ''expired''))"
  by (simp add: GSSTSig_sign_def GSSTSig_update_def GSSTSig_init_def failing_gssapi_def)

text \<open>
  Claim C9, amended. While the engine verifies, an exception of class \<^verbatim>\<open>Exception\<close>
  raised by the security context becomes \<open>BadSignature\<close>, and no such exception leaves
  \<open>verify\<close>; one outside that class is not caught, and a normal return is passed on.
  While the engine signs, whatever \<^verbatim>\<open>get_signature\<close> raises propagates unchanged.
\<close>

theorem GSSTSig_faults:
  assumes "gssapi_context g = Context c"
  shows "(verify_signature c (gss_data g) expected = Inl (Exception s) \<longrightarrow>
            GSSTSig_verify g expected = Inl BadSignature) \<and>
         (verify_signature c (gss_data g) expected = Inl (BaseException s) \<longrightarrow>
            GSSTSig_verify g expected = Inl (Raised (BaseException s))) \<and>
         (verify_signature c (gss_data g) expected = Inr u \<longrightarrow>
            GSSTSig_verify g expected = Inr u) \<and>
         GSSTSig_verify g expected \<noteq> Inl (Raised (Exception s)) \<and>
         (get_signature c (gss_data g) = Inl x \<longrightarrow> GSSTSig_sign g = Inl (Raised x)) \<and>
         (get_signature c (gss_data g) = Inr m \<longrightarrow> GSSTSig_sign g = Inr m)"
  using assms
  by (auto simp: GSSTSig_verify_def GSSTSig_sign_def is_Exception_def
      split: sum.splits raised.splits)

theorem GSSTSig_faults_witness:
  "GSSTSig_verify (GSSTSig_update (GSSTSig_init (Context failing_gssapi)) [5]) [2] = Inl BadSignature \<and>
   GSSTSig_verify (GSSTSig_update (GSSTSig_init (Context failing_gssapi)) [5]) [1] = Inr ()"
  using GSSTSig_faults [of "GSSTSig_update (GSSTSig_init (Context failing_gssapi)) [5]"
      failing_gssapi "[2]" "''bad token''"]
    GSSTSig_faults [of "GSSTSig_update (GSSTSig_init (Context failing_gssapi)) [5]"
      failing_gssapi "[1]" _ "()"]
  by (simp add: GSSTSig_update_def GSSTSig_init_def failing_gssapi_def)

subsection \<open>Keys and their engines\<close>

lemmas algorithm_defs =
  HMAC_MD5_def HMAC_SHA1_def HMAC_SHA224_def HMAC_SHA256_def HMAC_SHA256_128_def
  HMAC_SHA384_def HMAC_SHA384_192_def HMAC_SHA512_def HMAC_SHA512_256_def GSS_TSIG_def

lemmas eval_defs =
  sign_def validate_def digest_def maybe_start_digest_def get_context_def
  HMACTSig_init_def hashes_def algorithm_defs andthen_def hmac_new_def
  be16_def be32_def pack_H_def pack_I_def pack_HH_def pack_HIH_def unpack_H_def
  ctx_update_def ctx_sign_def ctx_verify_def HMACTSig_update_def hmac_update_def
  HMACTSig_sign_def HMACTSig_verify_def hmac_digest_def
  to_digestable_def ANY_def TSIG_rdatatype_def digest_size_def hash_name_def
  fake_hmac_def test_wire_def test_key_def test_rdata_def

lemma get_context_unsupported:
  "hashes (Key.algorithm k) = None \<Longrightarrow> Key.algorithm k \<noteq> GSS_TSIG \<Longrightarrow>
   get_context k = Inl (NotImplementedError (Key.algorithm k))"
  by (simp add: get_context_def HMACTSig_init_def andthen_def)

lemma digest_first_fails:
  "get_context k = Inl e \<Longrightarrow> ctx = None \<or> \<not> multi \<Longrightarrow>
   digest wire k rdata time rm ctx multi = Inl e"
  by (auto simp: digest_def andthen_def split: option.splits)

lemma sign_first_fails:
  "get_context k = Inl e \<Longrightarrow> ctx = None \<or> \<not> multi \<Longrightarrow>
   sign H wire k rdata time rm ctx multi = Inl e"
  by (simp add: sign_def digest_first_fails andthen_def)

text \<open>
  Claim C2 as stated fails: a key with the algorithm name hmac-foo, which is not in the
  table of hashes, is constructed without error, and it is \<open>sign\<close> that then fails with
  \<open>NotImplementedError\<close>.
\<close>

theorem Key_init_counterexample:
  "Key_init (\<lambda>t. Inl ValueError) (\<lambda>t. Inl ValueError)
     (Obj (Name [''k'', ''''])) (Obj (Bytes [1, 2, 3])) (Obj (Name [''hmac-foo'', ''''])) =
     Inr \<lparr>name = Name [''k'', ''''], secret = Bytes [1, 2, 3],
          algorithm = Name [''hmac-foo'', '''']\<rparr> \<and>
   sign fake_hmac test_wire
     \<lparr>name = Name [''k'', ''''], secret = Bytes [1, 2, 3], algorithm = Name [''hmac-foo'', '''']\<rparr>
     test_rdata (Some 1000) None None False =
     Inl (NotImplementedError (Name [''hmac-foo'', '''']))"
  by (simp add: Key_init_def eval_defs)

text \<open>
  Claim C2, amended. The constructor of a key does not check the algorithm: given a name
  it stores it, given text it stores what \<^verbatim>\<open>dns.name.from_text\<close> makes of it. The
  unsupported-algorithm error is raised when the engine of the key is created: for a key
  whose algorithm is neither in the table of hashes nor gss-tsig, \<open>get_context\<close> fails
  with \<open>NotImplementedError\<close>, and so do the digest and \<open>sign\<close> of a first message.
\<close>

theorem Key_init_unchecked:
  "Key_init from_text decodebytes (Obj n) (Obj s) (Obj a) =
     Inr \<lparr>name = n, secret = s, algorithm = a\<rparr> \<and>
   (from_text t = Inr a \<longrightarrow>
      Key_init from_text decodebytes (Obj n) (Obj s) (Str t) =
        Inr \<lparr>name = n, secret = s, algorithm = a\<rparr>) \<and>
   (hashes a = None \<and> a \<noteq> GSS_TSIG \<and> (ctx = None \<or> \<not> multi) \<longrightarrow>
      get_context \<lparr>name = n, secret = s, algorithm = a\<rparr> = Inl (NotImplementedError a) \<and>
      digest wire \<lparr>name = n, secret = s, algorithm = a\<rparr> rdata time rm ctx multi =
        Inl (NotImplementedError a) \<and>
      sign H wire \<lparr>name = n, secret = s, algorithm = a\<rparr> rdata time rm ctx multi =
        Inl (NotImplementedError a))"
proof -
  let ?k = "\<lparr>name = n, secret = s, algorithm = a\<rparr>"
  have g: "get_context ?k = Inl (NotImplementedError a)" if "hashes a = None" "a \<noteq> GSS_TSIG"
    using that get_context_unsupported [of ?k] by simp
  show ?thesis
    using g digest_first_fails [of ?k "NotImplementedError a" ctx multi wire rdata time rm]
      sign_first_fails [of ?k "NotImplementedError a" ctx multi H wire rdata time rm]
    by (auto simp: Key_init_def andthen_def)
qed

theorem Key_init_unchecked_witness:
  "Key_init (\<lambda>t. Inr (Name [t, ''''])) (\<lambda>t. Inl ValueError)
     (Obj (Name [''k'', ''''])) (Obj (Bytes [1, 2, 3])) (Str ''hmac-foo'') =
     Inr \<lparr>name = Name [''k'', ''''], secret = Bytes [1, 2, 3],
          algorithm = Name [''hmac-foo'', '''']\<rparr> \<and>
   digest test_wire
     \<lparr>name = Name [''k'', ''''], secret = Bytes [1, 2, 3], algorithm = Name [''hmac-foo'', '''']\<rparr>
     test_rdata None (Some [9]) None True =
     Inl (NotImplementedError (Name [''hmac-foo'', '''']))"
  using Key_init_unchecked [of "\<lambda>t. Inr (Name [t, ''''])" "\<lambda>t. Inl ValueError"
      "Name [''k'', '''']" "Bytes [1, 2, 3]" "Name [''hmac-foo'', '''']" "''hmac-foo''"
      None True test_wire test_rdata None "Some [9]" fake_hmac]
  by (simp add: hashes_def algorithm_defs)

subsection \<open>The signing time\<close>

text \<open>
  Claim C4 fails on the code. Called without a signing time, \<open>sign\<close> computes the digest
  over the time of the rdata, as it does when that time is passed explicitly, but the
  record it returns is built from its own argument, which is still \<open>None\<close>: the record
  carries no signing time.
\<close>

theorem sign_time_omitted:
  "(\<exists>tsig c. sign fake_hmac test_wire test_key test_rdata None None None False = Inr (tsig, c) \<and>
      time_signed tsig = None) \<and>
   time_signed test_rdata = Some 1000 \<and>
   digest test_wire test_key test_rdata None None None False =
     digest test_wire test_key test_rdata (Some 1000) None None False"
  by (simp add: eval_defs)

subsection \<open>Errors of the parts of validate\<close>

lemma andthen_Inl:
  "(andthen m f = Inl e) = (m = Inl e \<or> (\<exists>x. m = Inr x \<and> f x = Inl e))"
  by (cases m) (simp_all add: andthen_def)

lemma andthen_Inr [simp]: "andthen (Inr x) f = f x"
  by (simp add: andthen_def)

lemma andthen_Inl_left [simp]: "andthen (Inl e) f = Inl e"
  by (simp add: andthen_def)

lemma pack_H_error: "pack_H n = Inl e \<Longrightarrow> e = StructError"
  by (simp add: pack_H_def split: if_splits)

lemma pack_I_error: "pack_I n = Inl e \<Longrightarrow> e = StructError"
  by (simp add: pack_I_def split: if_splits)

lemma pack_HH_error: "pack_HH a b = Inl e \<Longrightarrow> e = StructError"
  by (auto simp: pack_HH_def andthen_Inl dest: pack_H_error)

lemma pack_HIH_error: "pack_HIH a b c = Inl e \<Longrightarrow> e = StructError"
  by (auto simp: pack_HIH_def andthen_Inl dest: pack_H_error pack_I_error)

lemma uint_byte_bounds: "0 \<le> uint (x :: byte) \<and> uint x \<le> 255"
  using uint_bounded [of x] by simp

lemma unpack_H_range: "unpack_H b = Inr n \<Longrightarrow> 0 \<le> n \<and> n \<le> 65535"
  using uint_byte_bounds [of "b ! 0"] uint_byte_bounds [of "b ! 1"]
  by (auto simp: unpack_H_def split: list.splits)

lemma hmac_new_error: "hmac_new s h = Inl e \<Longrightarrow> e = TypeError"
  by (simp add: hmac_new_def split: secret.splits)

lemma HMACTSig_init_error:
  "HMACTSig_init s a = Inl e \<Longrightarrow> e = NotImplementedError a \<or> e = TypeError"
  by (auto simp: HMACTSig_init_def andthen_Inl split: option.splits hashinfo.splits
      dest: hmac_new_error)

lemma get_context_error:
  "get_context k = Inl e \<Longrightarrow> e = NotImplementedError (Key.algorithm k) \<or> e = TypeError"
  by (auto simp: get_context_def andthen_Inl split: if_splits dest: HMACTSig_init_error)

lemma maybe_start_digest_error:
  "maybe_start_digest k m multi = Inl e \<Longrightarrow>
   e = NotImplementedError (Key.algorithm k) \<or> e = TypeError \<or> e = StructError"
  by (auto simp: maybe_start_digest_def andthen_Inl split: if_splits
      dest: get_context_error pack_H_error)

lemma digest_error:
  "digest wire k rdata time rm ctx multi = Inl e \<Longrightarrow>
   e = NotImplementedError (Key.algorithm k) \<or> e = TypeError \<or> e = StructError \<or> e = ValueError"
  by (auto simp: digest_def Let_def andthen_Inl split: if_splits option.splits
      dest: get_context_error pack_H_error pack_I_error pack_HH_error pack_HIH_error)

lemma GSSTSig_verify_error:
  "GSSTSig_verify g x = Inl e \<Longrightarrow> e = BadSignature \<or> (\<exists>s. e = Raised (BaseException s))"
  by (auto simp: GSSTSig_verify_def is_Exception_def
      split: secret.splits sum.splits raised.splits if_splits)

lemma ctx_verify_error:
  "ctx_verify H c x = Inl e \<Longrightarrow> e = BadSignature \<or> (\<exists>s. e = Raised (BaseException s))"
  by (auto simp: ctx_verify_def HMACTSig_verify_def Let_def split: ctx.splits if_splits
      dest: GSSTSig_verify_error)

lemma verification_error:
  "andthen (digest w k rdata time rm ctx multi)
     (\<lambda>c. andthen (ctx_verify H c m) (\<lambda>u. maybe_start_digest k m multi)) = Inl e \<Longrightarrow>
   e \<noteq> BadTime \<and> e \<noteq> FormError \<and> e \<noteq> BadKey \<and> e \<noteq> BadAlgorithm"
  by (auto simp: andthen_Inl dest: digest_error ctx_verify_error maybe_start_digest_error)

subsection \<open>The checks of validate\<close>

lemma pack_H_ok: "0 \<le> n \<Longrightarrow> n \<le> 65535 \<Longrightarrow>
    pack_H n = Inr (be16 n)"
  by (simp add: pack_H_def)

text \<open>
  \<open>validate\<close> on a wire whose additional-record count can be read, as a chain of the
  six checks of the source.
\<close>

lemma validate_checks:
  assumes "unpack_H (take 2 (drop 10 wire)) = Inr adcount"
  shows "validate H wire key owner rdata now rm ts ctx multi =
     (if adcount = 0 then Inl FormError
      else if error rdata \<noteq> 0 then Inl (peer_error (error rdata))
      else case time_signed rdata of
        None \<Rightarrow> Inl TypeError
      | Some t \<Rightarrow>
          if \<bar>t - now\<bar> > fudge rdata then Inl BadTime
          else if name key \<noteq> owner then Inl BadKey
          else if Key.algorithm key \<noteq> TSIG.algorithm rdata then Inl BadAlgorithm
          else andthen
            (digest (take 10 wire @ be16 (adcount - 1) @ drop 12 (take ts wire)) key rdata None rm ctx multi)
            (\<lambda>c. andthen (ctx_verify H c (mac rdata))
               (\<lambda>u. maybe_start_digest key (mac rdata) multi)))"
proof (cases "adcount = 0")
  case True
  then show ?thesis using assms by (simp add: validate_def)
next
  case False
  with unpack_H_range [OF assms] have "0 \<le> adcount - 1" "adcount - 1 \<le> 65535" by simp_all
  then have p: "pack_H (adcount - 1) = Inr (be16 (adcount - 1))"
    by (rule pack_H_ok)
  show ?thesis
    using False assms by (simp add: validate_def p Let_def split: option.splits)
qed




text \<open>
  Claim C7. When the additional-record count is at least 1 and the rdata carries no error
  code, \<open>validate\<close> raises \<open>BadTime\<close> if and only if the signing time and now are more
  than fudge apart: with now exactly fudge seconds after or before the signing time the
  result is not \<open>BadTime\<close>, and one second further it is.
\<close>

theorem validate_BadTime_iff:
  assumes "unpack_H (take 2 (drop 10 wire)) = Inr adcount"
    and "adcount \<noteq> 0" and "error rdata = 0" and "time_signed rdata = Some t"
  shows
    "(validate H wire key owner rdata now rm ts ctx multi = Inl BadTime) =
       (\<bar>t - now\<bar> > fudge rdata) \<and>
     (0 \<le> fudge rdata \<longrightarrow>
        validate H wire key owner rdata (t + fudge rdata) rm ts ctx multi \<noteq> Inl BadTime \<and>
        validate H wire key owner rdata (t - fudge rdata) rm ts ctx multi \<noteq> Inl BadTime \<and>
        validate H wire key owner rdata (t + fudge rdata + 1) rm ts ctx multi = Inl BadTime \<and>
        validate H wire key owner rdata (t - fudge rdata - 1) rm ts ctx multi = Inl BadTime)"
proof -
  have v: "\<And>w k r rm' c m. andthen (digest w k r None rm' c m)
       (\<lambda>c'. andthen (ctx_verify H c' (mac r)) (\<lambda>u. maybe_start_digest k (mac r) m))
     \<noteq> Inl BadTime"
    using verification_error by blast
  have iff: "(validate H wire key owner rdata n rm ts ctx multi = Inl BadTime) =
       (\<bar>t - n\<bar> > fudge rdata)" for n
    using assms(2-4) v by (simp add: validate_checks [OF assms(1)])
  show ?thesis
    by (simp add: iff)
qed

theorem validate_BadTime_iff_witness:
  "validate fake_hmac [0, 7, 1, 0, 0, 0, 0, 0, 0, 0, 0, 1] test_key (Name [''k'', ''''])
     test_rdata 1300 None 12 None False \<noteq> Inl BadTime \<and>
   validate fake_hmac [0, 7, 1, 0, 0, 0, 0, 0, 0, 0, 0, 1] test_key (Name [''k'', ''''])
     test_rdata 1301 None 12 None False = Inl BadTime"
  using
    validate_BadTime_iff [of "[0, 7, 1, 0, 0, 0, 0, 0, 0, 0, 0, 1]" 1 test_rdata 1000
      fake_hmac test_key "Name [''k'', '''']" 1300 None 12 None False]
    validate_BadTime_iff [of "[0, 7, 1, 0, 0, 0, 0, 0, 0, 0, 0, 1]" 1 test_rdata 1000
      fake_hmac test_key "Name [''k'', '''']" 1301 None 12 None False]
  by (simp add: unpack_H_def test_rdata_def)

subsection \<open>What the digest feeds to the engine\<close>

lemma ctx_update_append: "ctx_update (ctx_update c a) b = ctx_update c (a @ b)"
  by (cases c) (simp_all add: ctx_update_def HMACTSig_update_def GSSTSig_update_def hmac_update_def)

lemma fed_ctx_update: "fed (ctx_update c d) = fed c @ d"
  by (cases c) (simp_all add: fed_def ctx_update_def HMACTSig_update_def GSSTSig_update_def
      hmac_update_def)

lemma hmac_new_msg: "hmac_new s h = Inr c \<Longrightarrow> hmac_msg c = []"
  by (cases s) (auto simp: hmac_new_def)

lemma HMACTSig_init_msg: "HMACTSig_init s a = Inr e \<Longrightarrow> hmac_msg (hmac_context e) = []"
proof (cases "hashes a")
  case None
  assume "HMACTSig_init s a = Inr e"
  with None show ?thesis by (simp add: HMACTSig_init_def)
next
  case (Some i)
  assume a: "HMACTSig_init s a = Inr e"
  show ?thesis
  proof (cases i)
    case (Plain h)
    with a Some show ?thesis
      by (cases "hmac_new s h") (auto simp: HMACTSig_init_def dest: hmac_new_msg)
  next
    case (Truncated h n)
    with a Some show ?thesis
      by (cases "hmac_new s h") (auto simp: HMACTSig_init_def dest: hmac_new_msg)
  qed
qed

lemma fed_get_context: "get_context key = Inr c \<Longrightarrow> fed c = []"
proof (cases "Key.algorithm key = GSS_TSIG")
  case True
  assume "get_context key = Inr c"
  with True show ?thesis by (auto simp: get_context_def fed_def GSSTSig_init_def)
next
  case False
  assume a: "get_context key = Inr c"
  with False show ?thesis
    by (cases "HMACTSig_init (secret key) (Key.algorithm key)")
      (auto simp: get_context_def fed_def dest: HMACTSig_init_msg)
qed

lemma pack_constants: "pack_H ANY = Inr (be16 ANY)" "pack_I 0 = Inr (be32 0)"
  by (simp_all add: pack_H_def pack_I_def ANY_def)

lemma time_parts_range:
  "0 \<le> drop_bit 32 t AND 0xffff" "drop_bit 32 t AND 0xffff \<le> 65535"
  "0 \<le> t AND 0xffffffff" "t AND 0xffffffff \<le> 4294967295"
  for t :: int
  by (simp_all add: AND_upper2)

lemma pack_HIH_time:
  "0 \<le> f \<Longrightarrow> f \<le> 65535 \<Longrightarrow>
   pack_HIH (drop_bit 32 t AND 0xffff) (t AND 0xffffffff) f =
     Inr (be16 (drop_bit 32 t AND 0xffff) @ be32 (t AND 0xffffffff) @ be16 f)"
  using time_parts_range [of t] by (simp add: pack_HIH_def pack_H_def pack_I_def)

lemma pack_HH_ok:
  "0 \<le> a \<Longrightarrow> a \<le> 65535 \<Longrightarrow> 0 \<le> b \<Longrightarrow> b \<le> 65535 \<Longrightarrow>
   pack_HH a b = Inr (be16 a @ be16 b)"
  by (simp add: pack_HH_def pack_H_def)

lemma digest_continuation:
  "digest wire key rdata time rm (Some c) True =
     andthen (pack_H (original_id rdata)) (\<lambda>oid.
     andthen (case (case time of None \<Rightarrow> time_signed rdata | Some t \<Rightarrow> Some t) of
                None \<Rightarrow> Inl TypeError | Some t \<Rightarrow> Inr t) (\<lambda>t.
     andthen (pack_HIH (drop_bit 32 t AND 0xffff) (t AND 0xffffffff) (fudge rdata)) (\<lambda>te.
     if int (length (other rdata)) > 65535 then Inl ValueError
     else Inr (ctx_update c (oid @ drop 2 wire @ te)))))"
  by (simp add: digest_def Let_def ctx_update_append cong: if_cong)

lemma digest_first:
  assumes "ctx = None \<or> \<not> multi"
  shows "digest wire key rdata time rm ctx multi =
     andthen (get_context key) (\<lambda>c0.
     andthen (case rm of None \<Rightarrow> Inr []
              | Some m \<Rightarrow> if m = [] then Inr []
                         else andthen (pack_H (int (length m))) (\<lambda>l. Inr (l @ m))) (\<lambda>rb.
     andthen (pack_H (original_id rdata)) (\<lambda>oid.
     andthen (case (case time of None \<Rightarrow> time_signed rdata | Some t \<Rightarrow> Some t) of
                None \<Rightarrow> Inl TypeError | Some t \<Rightarrow> Inr t) (\<lambda>t.
     andthen (pack_HIH (drop_bit 32 t AND 0xffff) (t AND 0xffffffff) (fudge rdata)) (\<lambda>te.
     if int (length (other rdata)) > 65535 then Inl ValueError
     else andthen (pack_HH (error rdata) (int (length (other rdata)))) (\<lambda>eo.
       Inr (ctx_update c0
         (rb @ oid @ drop 2 wire @ to_digestable (name key) @ be16 ANY @ be32 0 @
          to_digestable (Key.algorithm key) @ te @ eo @ other rdata))))))))"
proof -
  have f: "(if \<not> ((case ctx of None \<Rightarrow> False | Some x \<Rightarrow> True) \<and> multi) then None else ctx) = None"
    using assms by (auto split: option.splits)
  have g: "(\<not> ((case ctx of None \<Rightarrow> False | Some x \<Rightarrow> True) \<and> multi)) = True"
    using assms by (auto split: option.splits)
  show ?thesis
  proof (cases "get_context key")
    case (Inl e)
    then show ?thesis unfolding digest_def Let_def f by simp
  next
    case c0: (Inr c0)
    show ?thesis
    proof (cases rm)
      case None
      then show ?thesis
        unfolding digest_def Let_def f g
        by (simp add: c0 pack_constants ctx_update_append cong: if_cong)
    next
      case (Some m)
      show ?thesis
      proof (cases "m = []")
        case True
        with Some show ?thesis
          unfolding digest_def Let_def f g
          by (simp add: c0 pack_constants ctx_update_append cong: if_cong)
      next
        case False
        show ?thesis
        proof (cases "pack_H (int (length m))")
          case (Inl e)
          with Some False show ?thesis
            unfolding digest_def Let_def f g by (simp add: c0)
        next
          case (Inr l)
          with Some False show ?thesis
            unfolding digest_def Let_def f g
            by (simp add: c0 pack_constants ctx_update_append cong: if_cong)
        qed
      qed
    qed
  qed
qed

lemma request_block_ok:
  assumes "\<forall>m. rm = Some m \<longrightarrow> length m \<le> 65535"
  shows "(case rm of None \<Rightarrow> Inr []
          | Some m \<Rightarrow> if m = [] then Inr []
                     else andthen (pack_H (int (length m))) (\<lambda>l. Inr (l @ m))) =
         Inr (case rm of None \<Rightarrow> []
              | Some m \<Rightarrow> if m = [] then [] else be16 (int (length m)) @ m)"
  using assms by (cases rm) (simp_all add: pack_H_def)

text \<open>
  Claim C3. When a context is supplied and \<open>multi\<close> is set, the digest feeds the supplied
  engine exactly the two-byte original id followed by the wire from offset 2, and then the
  time block: the upper 16 bits of the signing time, its lower 32 bits and the fudge.
  On a first message (no context, or \<open>multi\<close> not set) a fresh engine of the key is fed,
  in this order: the length-prefixed request MAC when there is one, the id and the wire
  from offset 2, the key name, the class ANY, a zero TTL, the algorithm name, the time
  block, the error code, the length of the other data and the other data.
\<close>

theorem digest_fed:
  assumes "0 \<le> original_id rdata" and "original_id rdata \<le> 65535"
    and "0 \<le> fudge rdata" and "fudge rdata \<le> 65535"
    and "length (other rdata) \<le> 65535"
    and "(case time of None \<Rightarrow> time_signed rdata | Some t' \<Rightarrow> Some t') = Some t"
  shows
    "digest wire key rdata time rm (Some c) True =
       Inr (ctx_update c
         (be16 (original_id rdata) @ drop 2 wire @
          be16 (drop_bit 32 t AND 0xffff) @ be32 (t AND 0xffffffff) @ be16 (fudge rdata))) \<and>
     fed (ctx_update c
         (be16 (original_id rdata) @ drop 2 wire @
          be16 (drop_bit 32 t AND 0xffff) @ be32 (t AND 0xffffffff) @ be16 (fudge rdata))) =
       fed c @ be16 (original_id rdata) @ drop 2 wire @
       be16 (drop_bit 32 t AND 0xffff) @ be32 (t AND 0xffffffff) @ be16 (fudge rdata) \<and>
     ((ctx = None \<or> \<not> multi) \<and> get_context key = Inr c0 \<and>
      0 \<le> error rdata \<and> error rdata \<le> 65535 \<and>
      (\<forall>m. rm = Some m \<longrightarrow> length m \<le> 65535) \<longrightarrow>
        (\<exists>c'. digest wire key rdata time rm ctx multi = Inr c' \<and>
           fed c' =
             (case rm of None \<Rightarrow> []
              | Some m \<Rightarrow> if m = [] then [] else be16 (int (length m)) @ m) @
             be16 (original_id rdata) @ drop 2 wire @
             to_digestable (name key) @ be16 ANY @ be32 0 @
             to_digestable (Key.algorithm key) @
             be16 (drop_bit 32 t AND 0xffff) @ be32 (t AND 0xffffffff) @ be16 (fudge rdata) @
             be16 (error rdata) @ be16 (int (length (other rdata))) @ other rdata))"
proof -
  have oid: "pack_H (original_id rdata) = Inr (be16 (original_id rdata))"
    using assms(1,2) by (simp add: pack_H_def)
  have te: "pack_HIH (drop_bit 32 t AND 0xffff) (t AND 0xffffffff) (fudge rdata) =
      Inr (be16 (drop_bit 32 t AND 0xffff) @ be32 (t AND 0xffffffff) @ be16 (fudge rdata))"
    using assms(3,4) by (rule pack_HIH_time)
  have len: "\<not> int (length (other rdata)) > 65535"
    using assms(5) by simp
  have cont: "digest wire key rdata time rm (Some c) True =
       Inr (ctx_update c
         (be16 (original_id rdata) @ drop 2 wire @
          be16 (drop_bit 32 t AND 0xffff) @ be32 (t AND 0xffffffff) @ be16 (fudge rdata)))"
    unfolding digest_continuation using len by (simp add: oid assms(6) te)
  have first: "\<exists>c'. digest wire key rdata time rm ctx multi = Inr c' \<and>
           fed c' =
             (case rm of None \<Rightarrow> []
              | Some m \<Rightarrow> if m = [] then [] else be16 (int (length m)) @ m) @
             be16 (original_id rdata) @ drop 2 wire @
             to_digestable (name key) @ be16 ANY @ be32 0 @
             to_digestable (Key.algorithm key) @
             be16 (drop_bit 32 t AND 0xffff) @ be32 (t AND 0xffffffff) @ be16 (fudge rdata) @
             be16 (error rdata) @ be16 (int (length (other rdata))) @ other rdata"
    if f: "ctx = None \<or> \<not> multi" and c0: "get_context key = Inr c0"
      and e: "0 \<le> error rdata" "error rdata \<le> 65535"
      and r: "\<forall>m. rm = Some m \<longrightarrow> length m \<le> 65535"
  proof -
    have eo: "pack_HH (error rdata) (int (length (other rdata))) =
        Inr (be16 (error rdata) @ be16 (int (length (other rdata))))"
      using e assms(5) by (simp add: pack_HH_ok)
    show ?thesis
      unfolding digest_first [OF f] request_block_ok [OF r]
      using len by (simp add: c0 oid assms(6) te eo fed_ctx_update fed_get_context [OF c0])
  qed
  show ?thesis
    using cont first by (simp add: fed_ctx_update)
qed

lemma decimal_sizes: "decimal 128 = ''128'' \<and> decimal 192 = ''192'' \<and> decimal 256 = ''256''"
  by code_simp

theorem digest_fed_witness:
  "digest test_wire test_key test_rdata None (Some [9])
     (Some (GSS \<lparr>gssapi_context = Context failing_gssapi, gss_data = [0, 1, 9],
                 gss_name = ''gss-tsig''\<rparr>)) True =
     Inr (GSS \<lparr>gssapi_context = Context failing_gssapi,
               gss_data = [0, 1, 9] @ [0, 7] @ [1, 0, 0, 0, 0, 0, 0, 0, 0, 0] @
                          [0, 0, 0, 0, 3, 232, 1, 44],
               gss_name = ''gss-tsig''\<rparr>) \<and>
   (\<exists>c'. digest test_wire test_key test_rdata None (Some [9]) None False = Inr c' \<and>
      fed c' = [0, 1, 9] @ [0, 7] @ [1, 0, 0, 0, 0, 0, 0, 0, 0, 0] @
               to_digestable (Name [''k'', '''']) @ [0, 255] @ [0, 0, 0, 0] @
               to_digestable HMAC_SHA256_128 @ [0, 0, 0, 0, 3, 232, 1, 44] @ [0, 0, 0, 0])"
proof -
  let ?g = "GSS \<lparr>gssapi_context = Context failing_gssapi, gss_data = [0, 1, 9],
                 gss_name = ''gss-tsig''\<rparr>"
  let ?h = "HMAC \<lparr>hmac_context = \<lparr>hmac_key = [1, 2, 3], hmac_digestmod = sha256, hmac_msg = []\<rparr>,
                  hmac_size = Some 128, hmac_name = ''hmac-sha256-128''\<rparr>"
  have c0: "get_context test_key = Inr ?h"
    by (simp add: get_context_def test_key_def HMACTSig_init_def hashes_def algorithm_defs
        hmac_new_def hash_name_def decimal_sizes del: decimal.simps)
  have r: "0 \<le> original_id test_rdata" "original_id test_rdata \<le> 65535"
    "0 \<le> fudge test_rdata" "fudge test_rdata \<le> 65535" "length (other test_rdata) \<le> 65535"
    "(case None of None \<Rightarrow> time_signed test_rdata | Some t' \<Rightarrow> Some t') = Some 1000"
    by (simp_all add: test_rdata_def)
  note th = digest_fed [of test_rdata None 1000 test_wire test_key "Some [9]" ?g None False ?h,
      OF r]
  have k: "name test_key = Name [''k'', '''']" "Key.algorithm test_key = HMAC_SHA256_128"
    by (simp_all add: test_key_def)
  have v: "original_id test_rdata = 7" "fudge test_rdata = 300" "error test_rdata = 0"
    "other test_rdata = []"
    by (simp_all add: test_rdata_def)
  have n: "be16 7 = [0, 7]" "be16 300 = [1, 44]" "be16 0 = [0, 0]" "be32 0 = [0, 0, 0, 0]"
    "be16 ANY = [0, 255]" "be16 (drop_bit 32 1000 AND 0xffff) = [0, 0]"
    "be32 1000 = [0, 0, 3, 232]" "be16 1 = [0, 1]"
    by (simp_all add: be16_def be32_def ANY_def)
  have w: "drop 2 test_wire = [1, 0, 0, 0, 0, 0, 0, 0, 0, 0]"
    by (simp add: test_wire_def)
  from th have a: "digest test_wire test_key test_rdata None (Some [9]) (Some ?g) True =
      Inr (ctx_update ?g ([0, 7] @ [1, 0, 0, 0, 0, 0, 0, 0, 0, 0] @ [0, 0, 0, 0, 3, 232, 1, 44]))"
    by (simp add: v n w)
  from th c0 have b: "\<exists>c'. digest test_wire test_key test_rdata None (Some [9]) None False = Inr c' \<and>
      fed c' = [0, 1, 9] @ [0, 7] @ [1, 0, 0, 0, 0, 0, 0, 0, 0, 0] @
               to_digestable (Name [''k'', '''']) @ [0, 255] @ [0, 0, 0, 0] @
               to_digestable HMAC_SHA256_128 @ [0, 0, 0, 0, 3, 232, 1, 44] @ [0, 0, 0, 0]"
    by (simp add: v n w k)
  from a b show ?thesis
    by (simp add: ctx_update_def GSSTSig_update_def)
qed

lemma andthen_Inr_iff:
  "(andthen m f = Inr y) = (\<exists>x. m = Inr x \<and> f x = Inr y)"
  by (cases m) simp_all

lemma pack_H_Inr: "pack_H n = Inr x \<Longrightarrow> x = be16 n"
  by (simp add: pack_H_def split: if_splits)









subsection \<open>Signing, then validating\<close>

lemma be16_unpack: "unpack_H [hi, lo] = Inr a \<Longrightarrow> be16 a = [hi, lo]"
proof -
  assume "unpack_H [hi, lo] = Inr a"
  then have a: "a = uint hi * 256 + uint lo"
    by (simp add: unpack_H_def)
  have "(uint hi * 256 + uint lo) div 256 = uint hi"
    using uint_byte_bounds [of lo] by simp
  moreover have "(word_of_int (uint hi * 256 + uint lo) :: byte) = lo"
  proof -
    have "(256 :: byte) = 0"
      by simp
    then have "hi * 256 = 0"
      by (simp only: mult_zero_right)
    then show ?thesis
      by simp
  qed
  ultimately show ?thesis
    by (simp add: be16_def a)
qed

lemma unpack_be16: "0 \<le> n \<Longrightarrow> n \<le> 65535 \<Longrightarrow> unpack_H (be16 n) = Inr n"
proof -
  assume n: "0 \<le> n" "n \<le> 65535"
  then have "n div 256 < 256" by simp
  with n have "uint (word_of_int (n div 256) :: byte) = n div 256"
    by (simp add: uint_word_of_int take_bit_eq_mod)
  moreover have "uint (word_of_int n :: byte) = n mod 256"
    by (simp add: uint_word_of_int take_bit_eq_mod)
  ultimately show ?thesis
    by (simp add: unpack_H_def be16_def)
qed

lemma unpack_H_length: "unpack_H (take 2 (drop 10 wire)) = Inr a \<Longrightarrow> 12 \<le> length wire"
proof -
  assume "unpack_H (take 2 (drop 10 wire)) = Inr a"
  then obtain hi lo where t: "take 2 (drop 10 wire) = [hi, lo]"
    by (auto simp: unpack_H_def split: list.splits)
  show ?thesis
    using arg_cong [OF t, of length] by simp
qed

lemma wire_restore:
  assumes "unpack_H (take 2 (drop 10 wire)) = Inr a"
  shows "take 10 wire @ be16 a @ drop 12 wire = wire"
proof -
  from assms obtain hi lo where t: "take 2 (drop 10 wire) = [hi, lo]"
    by (auto simp: unpack_H_def split: list.splits)
  with assms have "be16 a = take 2 (drop 10 wire)"
    by (simp add: be16_unpack)
  moreover have "drop 12 wire = drop 2 (drop 10 wire)" by simp
  ultimately have "take 10 wire @ be16 a @ drop 12 wire =
      take 10 wire @ (take 2 (drop 10 wire) @ drop 2 (drop 10 wire))"
    by simp
  also have "\<dots> = wire"
    unfolding append_take_drop_id by simp
  finally show ?thesis .
qed

lemma hashes_GSS_TSIG: "hashes GSS_TSIG = None"
  by (simp add: hashes_def algorithm_defs)

lemma get_context_hmac:
  assumes "secret key = Bytes s" and "hashes (Key.algorithm key) = Some hi"
  shows "\<exists>e. get_context key = Inr (HMAC e)"
proof -
  from assms(2) have g: "Key.algorithm key \<noteq> GSS_TSIG"
    using hashes_GSS_TSIG by auto
  show ?thesis
  proof (cases hi)
    case (Plain h)
    with assms g show ?thesis
      by (simp add: get_context_def init_plain)
  next
    case (Truncated h n)
    with assms g show ?thesis
      by (simp add: get_context_def init_truncated)
  qed
qed

lemma digest_rdata_cong:
  assumes "original_id r = original_id r'" and "fudge r = fudge r'" and "error r = error r'"
    and "other r = other r'"
    and "(case tm of None \<Rightarrow> time_signed r | Some t \<Rightarrow> Some t) =
         (case tm' of None \<Rightarrow> time_signed r' | Some t \<Rightarrow> Some t)"
  shows "digest w k r tm rm c m = digest w k r' tm' rm c m"
  using assms by (simp add: digest_def Let_def cong: if_cong)

lemma digest_first_ok:
  assumes f: "ctx = None \<or> \<not> multi" and c0: "get_context key = Inr c0"
    and i: "0 \<le> original_id rdata" "original_id rdata \<le> 65535"
    and fu: "0 \<le> fudge rdata" "fudge rdata \<le> 65535"
    and e: "0 \<le> error rdata" "error rdata \<le> 65535"
    and o: "length (other rdata) \<le> 65535"
    and r: "\<forall>m. rm = Some m \<longrightarrow> length m \<le> 65535"
    and t: "(case time of None \<Rightarrow> time_signed rdata | Some t' \<Rightarrow> Some t') = Some t"
  shows "digest wire key rdata time rm ctx multi =
     Inr (ctx_update c0
       ((case rm of None \<Rightarrow> [] | Some m \<Rightarrow> if m = [] then [] else be16 (int (length m)) @ m) @
        be16 (original_id rdata) @ drop 2 wire @
        to_digestable (name key) @ be16 ANY @ be32 0 @
        to_digestable (Key.algorithm key) @
        be16 (drop_bit 32 t AND 0xffff) @ be32 (t AND 0xffffffff) @ be16 (fudge rdata) @
        be16 (error rdata) @ be16 (int (length (other rdata))) @ other rdata))"
proof -
  have oid: "pack_H (original_id rdata) = Inr (be16 (original_id rdata))"
    using i by (simp add: pack_H_def)
  have te: "pack_HIH (drop_bit 32 t AND 0xffff) (t AND 0xffffffff) (fudge rdata) =
      Inr (be16 (drop_bit 32 t AND 0xffff) @ be32 (t AND 0xffffffff) @ be16 (fudge rdata))"
    using fu by (rule pack_HIH_time)
  have len: "\<not> int (length (other rdata)) > 65535"
    using o by simp
  have eo: "pack_HH (error rdata) (int (length (other rdata))) =
      Inr (be16 (error rdata) @ be16 (int (length (other rdata))))"
    using e o by (simp add: pack_HH_ok)
  show ?thesis
    unfolding digest_first [OF f] request_block_ok [OF r]
    using len by (simp add: c0 oid t te eo)
qed

lemma HMACTSig_sign_length_le:
  assumes "\<And>h k m. length (H h k m) \<le> n"
  shows "length (HMACTSig_sign H e) \<le> n"
  using assms [of "hmac_digestmod (hmac_context e)" "hmac_key (hmac_context e)"
      "hmac_msg (hmac_context e)"]
  by (auto simp: HMACTSig_sign_def hmac_digest_def Let_def split: option.splits)

lemma maybe_start_digest_ok:
  assumes "get_context key = Inr c0" and "multi \<longrightarrow> length m \<le> 65535"
  shows "\<exists>c. maybe_start_digest key m multi = Inr c"
  using assms by (simp add: maybe_start_digest_def pack_H_def)

lemma append_tsig_Inr:
  assumes "append_tsig wire rr = Inr wire'"
  shows "\<exists>a. unpack_H (take 2 (drop 10 wire)) = Inr a \<and> a + 1 \<le> 65535 \<and>
      wire' = take 10 wire @ be16 (a + 1) @ drop 12 wire @ rr"
  using assms
  by (auto simp: append_tsig_def andthen_Inr_iff dest: pack_H_Inr simp: pack_H_def
      split: if_splits)

lemma received_wire:
  assumes u: "unpack_H (take 2 (drop 10 wire)) = Inr a" and le: "a + 1 \<le> 65535"
  shows "unpack_H (take 2 (drop 10 (take 10 wire @ be16 (a + 1) @ drop 12 wire @ rr))) = Inr (a + 1)"
    and "take 10 (take 10 wire @ be16 (a + 1) @ drop 12 wire @ rr) @ be16 (a + 1 - 1) @
         drop 12 (take (length wire) (take 10 wire @ be16 (a + 1) @ drop 12 wire @ rr)) = wire"
proof -
  have l: "12 \<le> length wire"
    using u by (rule unpack_H_length)
  have a0: "0 \<le> a + 1"
    using unpack_H_range [OF u] by simp
  have b: "length (be16 (a + 1)) = 2"
    by (simp add: be16_def)
  have t: "take 2 (drop 10 (take 10 wire @ be16 (a + 1) @ drop 12 wire @ rr)) = be16 (a + 1)"
    using l b by simp
  show "unpack_H (take 2 (drop 10 (take 10 wire @ be16 (a + 1) @ drop 12 wire @ rr))) = Inr (a + 1)"
    unfolding t using a0 le by (rule unpack_be16)
  have x0: "take (length wire) (take 10 wire @ be16 (a + 1) @ drop 12 wire @ rr) =
      take 10 wire @ be16 (a + 1) @ drop 12 wire"
    using l b by simp
  have x: "drop 12 (take (length wire) (take 10 wire @ be16 (a + 1) @ drop 12 wire @ rr)) =
      drop 12 wire"
    unfolding x0 using l b by simp
  have y: "take 10 (take 10 wire @ be16 (a + 1) @ drop 12 wire @ rr) = take 10 wire"
    using l by simp
  have z: "a + 1 - 1 = a"
    by simp
  show "take 10 (take 10 wire @ be16 (a + 1) @ drop 12 wire @ rr) @ be16 (a + 1 - 1) @
         drop 12 (take (length wire) (take 10 wire @ be16 (a + 1) @ drop 12 wire @ rr)) = wire"
    unfolding x y z by (rule wire_restore [OF u])
qed

text \<open>
  The round trip of a record that carries a signing time, which is what \<open>sign\<close>
  returns when it is passed the time. For a key with raw-byte secret and an HMAC
  algorithm of the table, a message whose header holds an additional-record count below 65535, and rdata fields that can be
  encoded (id and fudge of 16 bits, error code 0, other data of at most 65535 bytes, and a
  signing time passed to \<open>sign\<close> or held by the rdata), \<open>sign\<close> succeeds and returns a
  record whose signing time is the time it was passed; and \<open>validate\<close>, given the message
  with the record appended, the same key, the key name as owner, the record that \<open>sign\<close>
  returned, the same request MAC and a now within fudge of the record's signing time,
  raises nothing and returns the continuation that \<open>sign\<close> returned (none unless
  \<open>multi\<close> is set).
\<close>

lemma sign_validate_roundtrip:
  assumes key: "secret key = Bytes s" "hashes (Key.algorithm key) = Some hi"
    and i: "0 \<le> original_id rdata" "original_id rdata \<le> 65535"
    and fu: "0 \<le> fudge rdata" "fudge rdata \<le> 65535"
    and e: "error rdata = 0"
    and o: "length (other rdata) \<le> 65535"
    and r: "\<forall>m. rm = Some m \<longrightarrow> length m \<le> 65535"
    and t0: "(case time of None \<Rightarrow> time_signed rdata | Some t' \<Rightarrow> Some t') = Some t0"
    and w: "append_tsig wire rr = Inr wire'"
    and h: "multi \<longrightarrow> (\<forall>h k m. length (H h k m) \<le> 65535)"
  shows "\<exists>tsig c. sign H wire key rdata time rm None multi = Inr (tsig, c) \<and>
      time_signed tsig = time \<and> (multi \<or> c = None) \<and>
      (\<forall>t. time_signed tsig = Some t \<and> \<bar>t - now\<bar> \<le> fudge tsig \<longrightarrow>
         validate H wire' key (name key) tsig now rm (length wire) None multi = Inr c)"
proof -
  from get_context_hmac [OF key] obtain e0 where c0: "get_context key = Inr (HMAC e0)"
    by blast
  define B where "B =
       (case rm of None \<Rightarrow> [] | Some m \<Rightarrow> if m = [] then [] else be16 (int (length m)) @ m) @
        be16 (original_id rdata) @ drop 2 wire @
        to_digestable (name key) @ be16 ANY @ be32 0 @
        to_digestable (Key.algorithm key) @
        be16 (drop_bit 32 t0 AND 0xffff) @ be32 (t0 AND 0xffffffff) @ be16 (fudge rdata) @
        be16 (error rdata) @ be16 (int (length (other rdata))) @ other rdata"
  define e1 where "e1 = HMACTSig_update e0 B"
  define m where "m = HMACTSig_sign H e1"
  define tsig where "tsig =
      \<lparr>rdclass = ANY, rdtype = TSIG_rdatatype, TSIG.algorithm = Key.algorithm key,
       time_signed = time, fudge = fudge rdata, mac = m,
       original_id = original_id rdata, error = error rdata, other = other rdata\<rparr>"
  have d: "digest wire key rdata time rm None multi = Inr (HMAC e1)"
    using digest_first_ok [OF _ c0 i fu _ _ o r t0, of None multi wire] e
    by (simp add: B_def e1_def ctx_update_def)
  have ml: "multi \<longrightarrow> length m \<le> 65535"
    using h HMACTSig_sign_length_le [of H 65535 e1] by (simp add: m_def)
  from maybe_start_digest_ok [OF c0 ml] obtain c where
    c: "maybe_start_digest key m multi = Inr c"
    by blast
  have cn: "multi \<or> c = None"
    using c by (auto simp: maybe_start_digest_def split: if_splits)
  have s: "sign H wire key rdata time rm None multi = Inr (tsig, c)"
    by (simp add: sign_def d ctx_sign_def m_def [symmetric] c tsig_def)
  have v: "validate H wire' key (name key) tsig now rm (length wire) None multi = Inr c"
    if ts: "time_signed tsig = Some t" and n: "\<bar>t - now\<bar> \<le> fudge tsig" for t
  proof -
    from append_tsig_Inr [OF w] obtain a where
      u: "unpack_H (take 2 (drop 10 wire)) = Inr a" and le: "a + 1 \<le> 65535"
      and w': "wire' = take 10 wire @ be16 (a + 1) @ drop 12 wire @ rr"
      by blast
    have a1: "a + 1 \<noteq> 0"
      using unpack_H_range [OF u] by simp
    have tm: "time = Some t"
      using ts by (simp add: tsig_def)
    have d': "digest wire key tsig None rm None multi = Inr (HMAC e1)"
      using digest_rdata_cong [of tsig rdata None time wire key rm None multi] d
      by (simp add: tsig_def tm)
    have vf: "ctx_verify H (HMAC e1) m = Inr ()"
      by (simp add: ctx_verify_def HMACTSig_verify_def m_def)
    have fields: "error tsig = 0" "fudge tsig = fudge rdata" "mac tsig = m"
      "TSIG.algorithm tsig = Key.algorithm key"
      by (simp_all add: tsig_def e)
    show ?thesis
      unfolding w' validate_checks [OF received_wire(1) [OF u le]] received_wire(2) [OF u le]
      using a1 n by (simp add: fields ts d' vf c)
  qed
  have ts0: "time_signed tsig = time"
    by (simp add: tsig_def)
  from s ts0 cn v show ?thesis
    by blast
qed

lemma sign_validate_roundtrip_example:
  "\<exists>tsig. sign fake_hmac test_wire test_key test_rdata (Some 1000) None None False =
            Inr (tsig, None) \<and>
     time_signed tsig = Some 1000 \<and>
     validate fake_hmac [0, 7, 1, 0, 0, 0, 0, 0, 0, 0, 0, 1, 5, 5, 5] test_key
       (Name [''k'', '''']) tsig 1300 None 12 None False = Inr None"
proof -
  have key: "secret test_key = Bytes [1, 2, 3]"
    "hashes (Key.algorithm test_key) = Some (Truncated sha256 128)"
    by (simp_all add: test_key_def hashes_simps)
  have rd: "0 \<le> original_id test_rdata" "original_id test_rdata \<le> 65535"
    "0 \<le> fudge test_rdata" "fudge test_rdata \<le> 65535" "error test_rdata = 0"
    "length (other test_rdata) \<le> 65535"
    by (simp_all add: test_rdata_def)
  have rm: "\<forall>m. (None :: bytes option) = Some m \<longrightarrow> length m \<le> 65535"
    by simp
  have tm: "(case Some 1000 of None \<Rightarrow> time_signed test_rdata | Some t' \<Rightarrow> Some t') = Some 1000"
    by simp
  have w: "append_tsig test_wire [5, 5, 5] = Inr [0, 7, 1, 0, 0, 0, 0, 0, 0, 0, 0, 1, 5, 5, 5]"
    by (simp add: append_tsig_def test_wire_def unpack_H_def pack_H_def be16_def)
  have h: "False \<longrightarrow> (\<forall>h k m. length (fake_hmac h k m) \<le> 65535)"
    by simp
  from sign_validate_roundtrip [OF key rd rm tm w h, of 1300]
  obtain tsig c where
    s: "sign fake_hmac test_wire test_key test_rdata (Some 1000) None None False = Inr (tsig, c)"
    and cn: "c = None"
    and v: "\<forall>t. time_signed tsig = Some t \<and> \<bar>t - 1300\<bar> \<le> fudge tsig \<longrightarrow>
         validate fake_hmac [0, 7, 1, 0, 0, 0, 0, 0, 0, 0, 0, 1, 5, 5, 5] test_key
           (name test_key) tsig 1300 None (length test_wire) None False = Inr c"
    by blast
  from s have f: "time_signed tsig = Some 1000" "fudge tsig = 300"
    by (auto simp: sign_def andthen_Inr_iff test_rdata_def)
  from v f have "validate fake_hmac [0, 7, 1, 0, 0, 0, 0, 0, 0, 0, 0, 1, 5, 5, 5] test_key
           (name test_key) tsig 1300 None (length test_wire) None False = Inr c"
    by simp
  moreover have "length test_wire = 12" "name test_key = Name [''k'', '''']"
    by (simp_all add: test_wire_def test_key_def)
  ultimately have "validate fake_hmac [0, 7, 1, 0, 0, 0, 0, 0, 0, 0, 0, 1, 5, 5, 5] test_key
       (Name [''k'', '''']) tsig 1300 None 12 None False = Inr None"
    by (simp only: cn)
  with s f cn show ?thesis
    by blast
qed

text \<open>
  Claim C5 fails on the code, through the defect of claim C4. Signing the twelve-byte
  message with the test key and rdata (error code 0, no other data, signing time 1000,
  fudge 300) without passing a time succeeds, but the record returned carries no signing
  time; validating the message with that record appended, with the same key, the key name
  as owner, the same request MAC and now = 1000, the very time the digest was computed
  over, does not succeed: the time check of \<open>validate\<close> has no time to compare and raises
  \<^verbatim>\<open>TypeError\<close>.
\<close>

theorem roundtrip_time_omitted:
  "append_tsig test_wire [5, 5, 5] = Inr [0, 7, 1, 0, 0, 0, 0, 0, 0, 0, 0, 1, 5, 5, 5] \<and>
   time_signed test_rdata = Some 1000 \<and> fudge test_rdata = 300 \<and>
   (\<exists>tsig. sign fake_hmac test_wire test_key test_rdata None None None False = Inr (tsig, None) \<and>
      time_signed tsig = None \<and>
      validate fake_hmac [0, 7, 1, 0, 0, 0, 0, 0, 0, 0, 0, 1, 5, 5, 5] test_key
        (Name [''k'', '''']) tsig 1000 None 12 None False = Inl TypeError)"
  by (simp add: eval_defs append_tsig_def)

end
